theory Spec2Isabelle
  imports Main
begin

section \<open>Data model (types.ts)\<close>

text \<open>
  The interfaces of \<^verbatim>\<open>types.ts\<close> as records. Field names that several interfaces
  share, or that the functions below use as variable names (\<^verbatim>\<open>title\<close>, \<^verbatim>\<open>name\<close>,
  \<^verbatim>\<open>uri\<close>, \<^verbatim>\<open>id\<close>, \<^verbatim>\<open>query\<close>, \<^verbatim>\<open>result\<close>), carry a prefix. An optional
  field (\<^verbatim>\<open>address?\<close>) is an \<open>option\<close>. TypeScript erases its types at run time, so
  \<^verbatim>\<open>author\<close> and \<^verbatim>\<open>summary\<close>, which \<^verbatim>\<open>searchBookDetails\<close> copies from a parsed
  response, keep the case \<^verbatim>\<open>undefined\<close> as well.
\<close>

datatype LocationType = library | bookstore

record BookLocation =
  loc_name :: string
  loc_address :: "string option"
  loc_uri :: string
  loc_type :: LocationType

record SoftcopyLink =
  link_title :: string
  link_uri :: "string option"

record BookResult =
  title :: string
  author :: "string option"
  summary :: "string option"
  authorBio :: "string option"
  awards :: "string list option"
  locations :: "BookLocation list"
  softcopies :: "SoftcopyLink list"
  coverImageUrl :: "string option"

record HistoryEntry =
  entry_id :: string
  entry_query :: string
  entry_timestamp :: nat
  entry_result :: BookResult

record Journal =
  journal_id :: string
  journal_name :: string
  bookTitles :: "string list"
  createdAt :: nat

section \<open>Platform functions on numbers and strings\<close>

text \<open>\<^verbatim>\<open>Date.now().toString()\<close>: the decimal digits of a number of milliseconds.\<close>

definition digit_char :: "nat \<Rightarrow> char" where
  "digit_char d = char_of (48 + d)"

function toString :: "nat \<Rightarrow> string" where
  "toString n = (if n < 10 then [digit_char n] else toString (n div 10) @ [digit_char (n mod 10)])"
  by pat_completeness auto
termination
  by (relation "measure (\<lambda>n. n)") auto

declare toString.simps [simp del]

text \<open>
  Strings are lists of bytes (UTF-8). \<^verbatim>\<open>String.prototype.toLowerCase\<close> and
  \<^verbatim>\<open>String.prototype.trim\<close> follow the Unicode tables of the platform; a function
  that calls one of them takes it as a parameter of that name, and what is proved holds
  for every function put there.
\<close>


text \<open>\<^verbatim>\<open>s.split(c)\<close> and the read \<^verbatim>\<open>xs[i]\<close>, which is \<^verbatim>\<open>undefined\<close> out of range.\<close>

fun split :: "char \<Rightarrow> string \<Rightarrow> string list" where
  "split c [] = [[]]"
| "split c (x # xs) =
     (if x = c then [] # split c xs
      else (case split c xs of [] \<Rightarrow> [[x]] | y # ys \<Rightarrow> (x # y) # ys))"

definition at_index :: "'a list \<Rightarrow> nat \<Rightarrow> 'a option" where
  "at_index xs i = (if i < length xs then Some (xs ! i) else None)"

text \<open>
  \<^verbatim>\<open>a || b\<close> on a string that may be \<^verbatim>\<open>undefined\<close>: the empty string and
  \<^verbatim>\<open>undefined\<close> are falsy.
\<close>

definition truthy :: "string option \<Rightarrow> bool" where
  "truthy v = (case v of None \<Rightarrow> False | Some s \<Rightarrow> s \<noteq> [])"

definition or_else :: "string option \<Rightarrow> string \<Rightarrow> string" where
  "or_else v d = (case v of None \<Rightarrow> d | Some s \<Rightarrow> if s = [] then d else s)"




text \<open>The errors that the modelled code can raise, or a promise be rejected with.\<close>

datatype js_error = SyntaxError | TypeError | InvalidStateError | ServiceError

text \<open>What the user is shown (\<^verbatim>\<open>alert\<close>) and what is only logged (\<^verbatim>\<open>console.error\<close>).\<close>

datatype effect = Alert string | ConsoleError

section \<open>Search history (App.tsx, handleSearch)\<close>

text \<open>
  The updater that \<^verbatim>\<open>handleSearch\<close> hands to \<^verbatim>\<open>setHistory\<close>:
  \<^verbatim>\<open>prev => [entry, ...prev].slice(0, 50)\<close>.
\<close>

definition history_updater :: "HistoryEntry \<Rightarrow> HistoryEntry list \<Rightarrow> HistoryEntry list" where
  "history_updater entry prev = take 50 (entry # prev)"

text \<open>
  The part of \<^verbatim>\<open>handleSearch\<close> that runs once \<^verbatim>\<open>searchBookDetails\<close> has resolved with
  \<open>res\<close>: the entry is built from two readings of the clock (\<^verbatim>\<open>Date.now()\<close> is
  called once for the id and once for the timestamp) and put in front of the history.
\<close>

definition history_entry :: "nat \<Rightarrow> nat \<Rightarrow> string \<Rightarrow> BookResult \<Rightarrow> HistoryEntry" where
  "history_entry now_id now_stamp queryToUse res =
     \<lparr>entry_id = toString now_id, entry_query = queryToUse, entry_timestamp = now_stamp,
       entry_result = res\<rparr>"

definition add_to_history ::
  "nat \<Rightarrow> nat \<Rightarrow> string \<Rightarrow> BookResult \<Rightarrow> HistoryEntry list \<Rightarrow> HistoryEntry list" where
  "add_to_history now_id now_stamp queryToUse res prev =
     history_updater (history_entry now_id now_stamp queryToUse res) prev"

text \<open>A run of inserts, the oldest first.\<close>

definition insert_all :: "HistoryEntry list \<Rightarrow> HistoryEntry list \<Rightarrow> HistoryEntry list" where
  "insert_all entries prev = foldl (\<lambda>h e. history_updater e h) prev entries"

section \<open>Favorites and journals (App.tsx)\<close>

text \<open>The React state that the favourites view works on.\<close>

record library =
  favorites :: "BookResult list"
  journals :: "Journal list"
  history :: "HistoryEntry list"
  activeJournalId :: string
  isCreatingJournal :: bool
  newJournalName :: string
  movingBookTitle :: "string option"

definition isFavorited :: "(string \<Rightarrow> string) \<Rightarrow> library \<Rightarrow> string \<Rightarrow> bool" where
  "isFavorited toLowerCase s t = list_ex (\<lambda>f. toLowerCase (title f) = toLowerCase t) (favorites s)"

text \<open>
  \<^verbatim>\<open>toggleFavorite\<close>: the updater of \<^verbatim>\<open>setFavorites\<close> calls \<^verbatim>\<open>setJournals\<close> when the
  book is already a favourite, so both collections change in the same operation.
\<close>

definition toggleFavorite :: "(string \<Rightarrow> string) \<Rightarrow> BookResult \<Rightarrow> library \<Rightarrow> library" where
  "toggleFavorite toLowerCase book s =
     (case find (\<lambda>f. toLowerCase (title f) = toLowerCase (title book)) (favorites s) of
        Some exists \<Rightarrow>
          s\<lparr>journals :=
               map (\<lambda>j. j\<lparr>bookTitles :=
                            filter (\<lambda>t. toLowerCase t \<noteq> toLowerCase (title book)) (bookTitles j)\<rparr>)
                   (journals s),
            favorites :=
               filter (\<lambda>f. toLowerCase (title f) \<noteq> toLowerCase (title book)) (favorites s)\<rparr>
      | None \<Rightarrow> s\<lparr>favorites := book # favorites s\<rparr>)"

text \<open>\<^verbatim>\<open>createJournal\<close>, with the two readings of the clock it makes.\<close>

definition createJournal :: "(string \<Rightarrow> string) \<Rightarrow> nat \<Rightarrow> nat \<Rightarrow> library \<Rightarrow> library" where
  "createJournal trim now_id now_created s =
     (if trim (newJournalName s) = [] then s
      else s\<lparr>journals := journals s @
                [\<lparr>journal_id = toString now_id, journal_name = newJournalName s,
                  bookTitles = [], createdAt = now_created\<rparr>],
             newJournalName := [],
             isCreatingJournal := False\<rparr>)"

text \<open>\<^verbatim>\<open>deleteJournal\<close>; \<open>confirmed\<close> is the user's answer to the \<^verbatim>\<open>confirm\<close> dialogue.\<close>

definition deleteJournal :: "bool \<Rightarrow> string \<Rightarrow> library \<Rightarrow> library" where
  "deleteJournal confirmed i s =
     (if confirmed
      then s\<lparr>journals := filter (\<lambda>j. journal_id j \<noteq> i) (journals s),
             activeJournalId := (if activeJournalId s = i then ''all'' else activeJournalId s)\<rparr>
      else s)"

text \<open>\<^verbatim>\<open>assignBookToJournal\<close>; \<open>journalId = None\<close> is the call with \<^verbatim>\<open>null\<close>.\<close>

definition assignBookToJournal :: "string \<Rightarrow> string option \<Rightarrow> library \<Rightarrow> library" where
  "assignBookToJournal bookTitle journalId s =
     s\<lparr>journals :=
          map (\<lambda>j. let cleanBooks = filter (\<lambda>t. t \<noteq> bookTitle) (bookTitles j)
                   in if Some (journal_id j) = journalId
                      then j\<lparr>bookTitles := cleanBooks @ [bookTitle]\<rparr>
                      else j\<lparr>bookTitles := cleanBooks\<rparr>)
              (journals s),
       movingBookTitle := None\<rparr>"

text \<open>The journals that hold a title.\<close>

definition holders :: "string \<Rightarrow> Journal list \<Rightarrow> Journal list" where
  "holders t js = filter (\<lambda>j. t \<in> set (bookTitles j)) js"

section \<open>Playback controller (App.tsx)\<close>

text \<open>
  The state that the audio handlers of \<^verbatim>\<open>App.tsx\<close> read and write: the three React
  flags, the refs \<^verbatim>\<open>isAudioLockedRef\<close>, \<^verbatim>\<open>activeAudioSourceRef\<close> and
  \<^verbatim>\<open>audioContextRef\<close>, and what the platform holds: the calls of
  \<^verbatim>\<open>startAudioPlayback\<close> that wait at an \<^verbatim>\<open>await\<close>, the number of source nodes
  created so far (a node is named by its number), the nodes that have been started and
  have neither been stopped nor ended, and what was shown or logged.
\<close>

datatype ContextState = running | suspended

datatype phase = AwaitSpeak | AwaitDecode | Returned

record playback =
  isPlayingAudio :: bool
  isAudioPaused :: bool
  isAudioLoading :: bool
  isAudioLocked :: bool
  activeAudioSource :: "nat option"
  audioContext :: "ContextState option"
  requests :: "phase list"
  sources :: nat
  sounding :: "nat list"
  effects :: "effect list"

definition initial :: playback where
  "initial = \<lparr>isPlayingAudio = False, isAudioPaused = False, isAudioLoading = False,
              isAudioLocked = False, activeAudioSource = None, audioContext = None,
              requests = [], sources = 0, sounding = [], effects = []\<rparr>"

text \<open>Idle: no flag is set, the lock is free and no source is held.\<close>

definition Idle :: "playback \<Rightarrow> bool" where
  "Idle s = (\<not> isPlayingAudio s \<and> \<not> isAudioPaused s \<and> \<not> isAudioLoading s
             \<and> \<not> isAudioLocked s \<and> activeAudioSource s = None)"

text \<open>
  \<^verbatim>\<open>source.stop()\<close> of the platform: it silences a node that sounds, does nothing on a
  node that has already stopped or ended, and raises on a node that was never started.
\<close>

definition source_stop :: "nat \<Rightarrow> playback \<Rightarrow> js_error + playback" where
  "source_stop src s =
     (if src \<in> set (sounding s) then Inr (s\<lparr>sounding := removeAll src (sounding s)\<rparr>)
      else if src < sources s then Inr s
      else Inl InvalidStateError)"

text \<open>\<^verbatim>\<open>stopAudio\<close> (App.tsx); the \<^verbatim>\<open>try\<close> around \<^verbatim>\<open>stop()\<close> drops its error.\<close>

definition stopAudio :: "playback \<Rightarrow> playback" where
  "stopAudio s =
     (let s1 = (case activeAudioSource s of
                  None \<Rightarrow> s
                | Some src \<Rightarrow>
                    (case source_stop src s of Inl e \<Rightarrow> s | Inr s' \<Rightarrow> s')
                    \<lparr>activeAudioSource := None\<rparr>);
          s2 = (if audioContext s1 = Some suspended then s1\<lparr>audioContext := Some running\<rparr> else s1)
      in s2\<lparr>isPlayingAudio := False, isAudioPaused := False, isAudioLoading := False,
             isAudioLocked := False\<rparr>)"

text \<open>\<^verbatim>\<open>stopAudio\<close> of the other revision of the component (part_001), which leaves the context alone.\<close>

definition stopAudio_part_001 :: "playback \<Rightarrow> playback" where
  "stopAudio_part_001 s =
     (let s1 = (case activeAudioSource s of
                  None \<Rightarrow> s
                | Some src \<Rightarrow>
                    (case source_stop src s of Inl e \<Rightarrow> s | Inr s' \<Rightarrow> s')
                    \<lparr>activeAudioSource := None\<rparr>)
      in s1\<lparr>isPlayingAudio := False, isAudioPaused := False, isAudioLoading := False,
             isAudioLocked := False\<rparr>)"

definition pauseAudio :: "playback \<Rightarrow> playback" where
  "pauseAudio s =
     (if audioContext s = Some running
      then s\<lparr>audioContext := Some suspended, isAudioPaused := True\<rparr> else s)"

definition resumeAudio :: "playback \<Rightarrow> playback" where
  "resumeAudio s =
     (if audioContext s = Some suspended
      then s\<lparr>audioContext := Some running, isAudioPaused := False\<rparr> else s)"

text \<open>
  \<^verbatim>\<open>startAudioPlayback\<close> up to its first \<^verbatim>\<open>await\<close>: the lock is taken, the loading
  flag set and \<^verbatim>\<open>speakText\<close> called; the call now waits for the answer.
\<close>

definition startAudioPlayback :: "string \<Rightarrow> playback \<Rightarrow> playback" where
  "startAudioPlayback text s =
     s\<lparr>isAudioLocked := True, isAudioLoading := True, requests := requests s @ [AwaitSpeak]\<rparr>"

definition handleAudioToggle :: "string option \<Rightarrow> playback \<Rightarrow> playback" where
  "handleAudioToggle text s =
     (if isAudioLocked s then s
      else if isPlayingAudio s
           then (if isAudioPaused s then resumeAudio s else pauseAudio s)
      else (case text of
              None \<Rightarrow> s
            | Some t \<Rightarrow> if t \<noteq> [] then startAudioPlayback t s else s))"

text \<open>The \<^verbatim>\<open>catch\<close> block of \<^verbatim>\<open>startAudioPlayback\<close>, which ends the call \<open>r\<close>.\<close>

definition start_failed :: "nat \<Rightarrow> playback \<Rightarrow> playback" where
  "start_failed r s =
     s\<lparr>effects := effects s @ [ConsoleError], isAudioLoading := False, isAudioLocked := False,
       requests := (requests s)[r := Returned]\<rparr>"

text \<open>
  The call \<open>r\<close> resumes when \<^verbatim>\<open>speakText\<close> has resolved with \<open>base64Audio\<close>
  (\<open>None\<close> is \<^verbatim>\<open>undefined\<close>). With audio, the context is created if there is none and
  resumed if it is suspended, and the call waits for the decoding; without, the
  \<^verbatim>\<open>else\<close> branch clears the loading flag and the lock.
\<close>

definition speak_resolved :: "nat \<Rightarrow> string option \<Rightarrow> playback \<Rightarrow> playback" where
  "speak_resolved r base64Audio s =
     (if truthy base64Audio
      then s\<lparr>audioContext := Some running, requests := (requests s)[r := AwaitDecode]\<rparr>
      else s\<lparr>isAudioLoading := False, isAudioLocked := False,
             requests := (requests s)[r := Returned]\<rparr>)"

text \<open>
  The call \<open>r\<close> resumes after the decoding. A failed decoding (\<open>ok = False\<close>) goes to
  the \<^verbatim>\<open>catch\<close> block. Otherwise the call returns if the lock is free, and else
  creates a source, records it, sets the flags and starts it.
\<close>

definition decode_resolved :: "nat \<Rightarrow> bool \<Rightarrow> playback \<Rightarrow> playback" where
  "decode_resolved r ok s =
     (if \<not> ok then start_failed r s
      else if \<not> isAudioLocked s then s\<lparr>requests := (requests s)[r := Returned]\<rparr>
      else s\<lparr>activeAudioSource := Some (sources s),
             isAudioLoading := False, isPlayingAudio := True, isAudioPaused := False,
             sources := Suc (sources s),
             sounding := sounding s @ [sources s],
             requests := (requests s)[r := Returned]\<rparr>)"

text \<open>The \<^verbatim>\<open>onended\<close> handler of the source \<open>src\<close>, run when that source has ended.\<close>

definition onended :: "nat \<Rightarrow> playback \<Rightarrow> playback" where
  "onended src s =
     s\<lparr>sounding := removeAll src (sounding s),
       isPlayingAudio := False, isAudioPaused := False, activeAudioSource := None,
       isAudioLocked := False\<rparr>"

text \<open>
  What can happen to the controller, one event at a time (the handlers run to their
  next \<^verbatim>\<open>await\<close> before another event is taken): the user toggles or stops, the
  answer to the call \<open>r\<close> arrives or fails, its decoding ends, a sounding source ends.
  An event of the platform that cannot occur in a state leaves it as it is.
\<close>

datatype event =
    Toggle "string option"
  | Stop
  | Speak nat "string option"
  | SpeakRejected nat
  | Decode nat bool
  | Ended nat

definition waits :: "playback \<Rightarrow> nat \<Rightarrow> phase \<Rightarrow> bool" where
  "waits s r p = (r < length (requests s) \<and> requests s ! r = p)"

fun step :: "playback \<Rightarrow> event \<Rightarrow> playback" where
  "step s (Toggle text) = handleAudioToggle text s"
| "step s Stop = stopAudio s"
| "step s (Speak r base64Audio) = (if waits s r AwaitSpeak then speak_resolved r base64Audio s else s)"
| "step s (SpeakRejected r) = (if waits s r AwaitSpeak then start_failed r s else s)"
| "step s (Decode r ok) = (if waits s r AwaitDecode then decode_resolved r ok s else s)"
| "step s (Ended src) =
     (if src \<in> set (sounding s) \<and> audioContext s = Some running then onended src s else s)"

definition run :: "playback \<Rightarrow> event list \<Rightarrow> playback" where
  "run s es = foldl step s es"

section \<open>Hydration from local storage (App.tsx, the useState initializers)\<close>

text \<open>
  \<^verbatim>\<open>localStorage.getItem\<close> is a map from keys to texts. \<^verbatim>\<open>JSON.parse\<close> belongs to the
  platform: the model takes it as the parameter \<open>JSON_parse\<close>, which answers \<open>None\<close>
  where \<^verbatim>\<open>JSON.parse\<close> raises its SyntaxError. The initializers of favorites, journals
  and history are the same expression, \<^verbatim>\<open>saved ? JSON.parse(saved) : []\<close>, on three keys;
  the value parsed is taken for a list of the element type without a check.
\<close>

type_synonym storage = "string \<Rightarrow> string option"

definition parse_or_empty :: "(string \<Rightarrow> 'a list option) \<Rightarrow> string option \<Rightarrow> js_error + 'a list" where
  "parse_or_empty JSON_parse saved =
     (case saved of
        None \<Rightarrow> Inr []
      | Some text \<Rightarrow>
          if text = [] then Inr []
          else (case JSON_parse text of None \<Rightarrow> Inl SyntaxError | Some v \<Rightarrow> Inr v))"

definition favorites_initial ::
  "(string \<Rightarrow> BookResult list option) \<Rightarrow> storage \<Rightarrow> js_error + BookResult list" where
  "favorites_initial JSON_parse localStorage = parse_or_empty JSON_parse (localStorage ''lumina-favorites'')"

definition journals_initial ::
  "(string \<Rightarrow> Journal list option) \<Rightarrow> storage \<Rightarrow> js_error + Journal list" where
  "journals_initial JSON_parse localStorage = parse_or_empty JSON_parse (localStorage ''lumina-journals'')"

definition history_initial ::
  "(string \<Rightarrow> HistoryEntry list option) \<Rightarrow> storage \<Rightarrow> js_error + HistoryEntry list" where
  "history_initial JSON_parse localStorage = parse_or_empty JSON_parse (localStorage ''lumina-history'')"

text \<open>\<^verbatim>\<open>(localStorage.getItem('lumina-lang') as Language) || 'English'\<close>: the cast checks nothing.\<close>

definition language_initial :: "storage \<Rightarrow> string" where
  "language_initial localStorage = or_else (localStorage ''lumina-lang'') ''English''"

text \<open>
  The theme; \<open>prefersDark\<close> is what
  \<^verbatim>\<open>window.matchMedia('(prefers-color-scheme: dark)').matches\<close> answers.
\<close>

definition isDarkMode_initial :: "bool \<Rightarrow> storage \<Rightarrow> bool" where
  "isDarkMode_initial prefersDark localStorage =
     (let saved = localStorage ''lumina-theme''
      in if truthy saved then saved = Some ''dark'' else prefersDark)"

section \<open>Content Service client (services/geminiService.ts, part_000)\<close>

text \<open>
  A call of \<^verbatim>\<open>ai.models.generateContent\<close> is a request; the service is a parameter
  \<open>generateContent\<close> that answers a request with a response or rejects it. Of the request,
  the model keeps the model name, the prompt, the inline data (with its MIME type) and
  the coordinates; of the response, the text and the grounding chunks
  (\<^verbatim>\<open>candidates?.[0]?.groundingMetadata?.groundingChunks\<close>, \<open>None\<close> where a link of
  that chain is missing).
\<close>

record MapsChunk =
  maps_title :: "string option"
  maps_uri :: "string option"

record WebChunk =
  web_title :: "string option"
  web_uri :: "string option"

record GroundingChunk =
  maps :: "MapsChunk option"
  web :: "WebChunk option"

record 'loc Request =
  model :: string
  contents :: string
  inlineData :: "(string option \<times> string) option"
  latLng :: "'loc option"

record GenerateContentResponse =
  groundingChunks :: "GroundingChunk list option"
  response_text :: "string option"

type_synonym 'loc service = "'loc Request \<Rightarrow> js_error + GenerateContentResponse"

definition quoted :: "string \<Rightarrow> string" where
  "quoted s = [CHR 0x22] @ s @ [CHR 0x22]"

text \<open>
  \<^verbatim>\<open>transcribeAudio\<close>. (The second revision in part_000 differs in the wording of the
  prompt only.) \<open>base64Audio\<close> is an \<open>option\<close> because the caller takes it from an array
  read.
\<close>

definition transcribe_request :: "string option \<Rightarrow> string \<Rightarrow> 'loc Request" where
  "transcribe_request base64Audio mimeType =
     \<lparr>model = ''gemini-3-flash-preview'',
      contents = ''Identify the book name or author mentioned in this audio. Return only the name.'',
      inlineData = Some (base64Audio, mimeType),
      latLng = None\<rparr>"

definition transcribeAudio ::
  "(string \<Rightarrow> string) \<Rightarrow> 'loc service \<Rightarrow> string option \<Rightarrow> string \<Rightarrow> js_error + string" where
  "transcribeAudio trim generateContent base64Audio mimeType =
     (case generateContent (transcribe_request base64Audio mimeType) of
        Inl e \<Rightarrow> Inl e
      | Inr response \<Rightarrow>
          Inr (case response_text response of None \<Rightarrow> [] | Some t \<Rightarrow> or_else (Some (trim t)) []))"










subsection \<open>searchBookDetails, first revision (part_000, lines 6 to 108)\<close>









subsection \<open>searchBookDetails, second revision (part_000, lines 218 to 320)\<close>









section \<open>Capture controller (App.tsx, startRecording)\<close>

text \<open>
  A \<^verbatim>\<open>Blob\<close> is its bytes and its type. \<^verbatim>\<open>FileReader.readAsDataURL\<close> gives
  \<^verbatim>\<open>data:<type>;base64,<the bytes in base64>\<close>.
\<close>

record Blob =
  blob_bytes :: "nat list"
  blob_type :: string

definition new_Blob :: "Blob list \<Rightarrow> string \<Rightarrow> Blob" where
  "new_Blob parts ty = \<lparr>blob_bytes = concat (map blob_bytes parts), blob_type = ty\<rparr>"

definition base64_char :: "nat \<Rightarrow> char" where
  "base64_char n = ''ABCDEFGHIJKLMNOPQRSTUVWXYZabcdefghijklmnopqrstuvwxyz0123456789+/'' ! (n mod 64)"

fun base64 :: "nat list \<Rightarrow> string" where
  "base64 [] = []"
| "base64 [a] = [base64_char (a div 4), base64_char (a mod 4 * 16), CHR ''='', CHR ''='']"
| "base64 [a, b] =
     [base64_char (a div 4), base64_char (a mod 4 * 16 + b div 16), base64_char (b mod 16 * 4),
      CHR ''='']"
| "base64 (a # b # c # rest) =
     [base64_char (a div 4), base64_char (a mod 4 * 16 + b div 16),
      base64_char (b mod 16 * 4 + c div 64), base64_char (c mod 64)] @ base64 rest"

definition readAsDataURL :: "Blob \<Rightarrow> string" where
  "readAsDataURL blob = ''data:'' @ blob_type blob @ '';base64,'' @ base64 (blob_bytes blob)"

text \<open>
  The state of a recording: \<^verbatim>\<open>audioChunksRef\<close>, the flags, the search box and what was
  shown or logged.
\<close>

record capture =
  audioChunks :: "Blob list"
  isRecording :: bool
  isTranscribing :: bool
  searchQuery :: string
  shown :: "effect list"

text \<open>
  \<^verbatim>\<open>startRecording\<close>; \<open>granted\<close> tells whether \<^verbatim>\<open>getUserMedia\<close> resolves. The
  handlers that it installs follow.
\<close>

definition startRecording :: "bool \<Rightarrow> capture \<Rightarrow> capture" where
  "startRecording granted s =
     (if granted then s\<lparr>audioChunks := [], isRecording := True\<rparr>
      else s\<lparr>shown := shown s @ [Alert ''Mic permission error.'']\<rparr>)"

definition ondataavailable :: "Blob \<Rightarrow> capture \<Rightarrow> capture" where
  "ondataavailable data s =
     (if length (blob_bytes data) > 0 then s\<lparr>audioChunks := audioChunks s @ [data]\<rparr> else s)"

text \<open>
  The first lines of \<^verbatim>\<open>handleSearch\<close>: the query that it goes on to search for, or
  \<open>None\<close> where it returns at once.
\<close>

definition handleSearch_query :: "(string \<Rightarrow> string) \<Rightarrow> string option \<Rightarrow> string \<Rightarrow> string option" where
  "handleSearch_query trim overrideQuery box =
     (let queryToUse = or_else overrideQuery box
      in if trim queryToUse = [] then None else Some queryToUse)"

text \<open>
  \<^verbatim>\<open>onstop\<close> and the \<^verbatim>\<open>onloadend\<close> of its reader, with the answer of the service to
  the transcription request: the new state, and the query for which a search is started
  (\<open>None\<close>: no search).
\<close>

definition recorded_base64 :: "Blob list \<Rightarrow> string option" where
  "recorded_base64 chunks = at_index (split CHR '','' (readAsDataURL (new_Blob chunks ''audio/webm''))) 1"

definition onstop :: "(string \<Rightarrow> string) \<Rightarrow> 'loc service \<Rightarrow> capture \<Rightarrow> capture \<times> string option" where
  "onstop trim generateContent s =
     (case transcribeAudio trim generateContent (recorded_base64 (audioChunks s)) ''audio/webm'' of
        Inl e \<Rightarrow> (s\<lparr>isTranscribing := False, shown := shown s @ [ConsoleError]\<rparr>, None)
      | Inr transcription \<Rightarrow>
          if transcription \<noteq> []
          then (s\<lparr>isTranscribing := False, searchQuery := transcription\<rparr>,
                handleSearch_query trim (Some transcription) (searchQuery s))
          else (s\<lparr>isTranscribing := False\<rparr>, None))"

section \<open>Sample data\<close>

text \<open>
  For the examples, \<^verbatim>\<open>toLowerCase\<close> and \<^verbatim>\<open>trim\<close> as they are on ASCII text: the
  letters A to Z are lowered; tab, line feed, vertical tab, form feed, carriage return
  and space are white space.
\<close>

definition lower_char :: "char \<Rightarrow> char" where
  "lower_char c = (let n = (of_char c :: nat) in if 65 \<le> n \<and> n \<le> 90 then char_of (n + 32) else c)"

definition ascii_lower :: "string \<Rightarrow> string" where
  "ascii_lower s = map lower_char s"

definition is_space :: "char \<Rightarrow> bool" where
  "is_space c = (let n = (of_char c :: nat) in (9 \<le> n \<and> n \<le> 13) \<or> n = 32)"

definition ascii_trim :: "string \<Rightarrow> string" where
  "ascii_trim s = rev (dropWhile is_space (rev (dropWhile is_space s)))"

definition dune :: BookResult where
  "dune = \<lparr>title = ''Dune'', author = Some ''Frank Herbert'', summary = Some ''A desert planet.'',
           authorBio = None, awards = None, locations = [], softcopies = [], coverImageUrl = None\<rparr>"

definition nth_search :: "nat \<Rightarrow> HistoryEntry" where
  "nth_search n = history_entry n n (toString n) dune"

definition shelf :: library where
  "shelf = \<lparr>favorites = [dune],
            journals = [\<lparr>journal_id = ''1'', journal_name = ''A'', bookTitles = [''Emma'', ''DUNE'', ''Dune''],
                         createdAt = 1\<rparr>,
                        \<lparr>journal_id = ''2'', journal_name = ''B'', bookTitles = [''Ulysses''],
                         createdAt = 2\<rparr>],
            history = [], activeJournalId = ''1'', isCreatingJournal = False,
            newJournalName = [], movingBookTitle = Some ''Dune''\<rparr>"

text \<open>Two journals that carry the same id, as a stored journal list can.\<close>

definition twins :: library where
  "twins = \<lparr>favorites = [dune],
            journals = [\<lparr>journal_id = ''1'', journal_name = ''A'', bookTitles = [], createdAt = 1\<rparr>,
                        \<lparr>journal_id = ''1'', journal_name = ''B'', bookTitles = [], createdAt = 1\<rparr>],
            history = [], activeJournalId = ''all'', isCreatingJournal = False,
            newJournalName = [], movingBookTitle = Some ''Dune''\<rparr>"

definition no_storage :: storage where
  "no_storage = Map.empty"

text \<open>A stored favorites text that is cut off, and what \<^verbatim>\<open>JSON.parse\<close> does on two texts.\<close>

definition cut_off_storage :: storage where
  "cut_off_storage = map_of [(''lumina-favorites'', ''[{'' @ quoted ''title'' @ '':'')]"

definition parse_table :: "string \<Rightarrow> BookResult list option" where
  "parse_table = map_of [(''[]'', [])]"

text \<open>A service that hears a title in every clip, one that hears nothing, and a recorder at rest.\<close>

definition hears_dune :: "unit service" where
  "hears_dune request = Inr \<lparr>groundingChunks = None, response_text = Some '' Dune ''\<rparr>"

definition hears_nothing :: "unit service" where
  "hears_nothing request = Inr \<lparr>groundingChunks = None, response_text = None\<rparr>"

definition recorder :: capture where
  "recorder = \<lparr>audioChunks = [], isRecording = False, isTranscribing = False, searchQuery = [],
               shown = []\<rparr>"



section \<open>Properties of the search history\<close>

lemma history_updater_length: "length (history_updater e h) \<le> 50"
  by (simp add: history_updater_def)

lemma insert_all_take: "insert_all es h = take 50 (rev es @ h) \<or> (es = [] \<and> insert_all es h = h)"
proof (induction es arbitrary: h)
  case Nil
  show ?case by (simp add: insert_all_def)
next
  case (Cons e es)
  have step: "insert_all (e # es) h = insert_all es (take 50 (e # h))"
    by (simp add: insert_all_def history_updater_def)
  show ?case
  proof (cases "es = []")
    case True
    then show ?thesis by (simp add: insert_all_def history_updater_def)
  next
    case False
    with Cons.IH [of "take 50 (e # h)"]
    have "insert_all es (take 50 (e # h)) = take 50 (rev es @ take 50 (e # h))"
      by simp
    also have "\<dots> = take 50 (rev es @ e # h)"
      by (simp add: take_Cons' min_def split: nat.splits)
    finally show ?thesis using step by simp
  qed
qed

lemma insert_all_overflow:
  assumes "50 \<le> length es" "es \<noteq> []"
  shows "insert_all es h = rev (drop (length es - 50) es)"
proof -
  from insert_all_take [of es h] assms(2)
  have "insert_all es h = take 50 (rev es @ h)" by simp
  also have "\<dots> = take 50 (rev es)" using assms(1) by simp
  also have "\<dots> = rev (drop (length es - 50) es)" by (simp add: take_rev)
  finally show ?thesis .
qed

text \<open>
  C2. After every insert the history holds at most 50 entries; the new entry is in front
  and the rest is the previous history cut to fit. After 51 inserts (into any previous
  history) the history is the last 50 inserted entries, the newest first, and the first
  inserted entry is gone (it could only be there as a copy of a later entry).
\<close>

theorem history_capped_at_50:
  "length (add_to_history now_id now_stamp q res prev) \<le> 50
   \<and> add_to_history now_id now_stamp q res prev
       = history_entry now_id now_stamp q res # take 49 prev
   \<and> (length es = 51 \<longrightarrow> insert_all es prev = rev (tl es))
   \<and> (length es = 51 \<longrightarrow> distinct es \<longrightarrow> hd es \<notin> set (insert_all es prev))"
proof -
  have a: "length (add_to_history now_id now_stamp q res prev) \<le> 50"
    by (simp add: add_to_history_def history_updater_length)
  have b: "add_to_history now_id now_stamp q res prev
       = history_entry now_id now_stamp q res # take 49 prev"
    by (simp add: add_to_history_def history_updater_def take_Cons')
  have c: "insert_all es prev = rev (tl es)" if "length es = 51"
  proof -
    from that have "es \<noteq> []" by auto
    with that insert_all_overflow [of es prev]
    have "insert_all es prev = rev (drop 1 es)" by simp
    then show ?thesis by (simp add: drop_Suc)
  qed
  have d: "hd es \<notin> set (insert_all es prev)" if "length es = 51" "distinct es"
  proof -
    from that(1) obtain e rest where es: "es = e # rest" by (cases es) auto
    with that(2) have "e \<notin> set rest" by simp
    with c [OF that(1)] es show ?thesis by simp
  qed
  from a b c d show ?thesis by blast
qed


theorem history_capped_at_50_witness:
  "length (map nth_search [0..<51]) = 51
   \<and> distinct (map nth_search [0..<51])
   \<and> insert_all (map nth_search [0..<51]) [] = rev (map nth_search [1..<51])
   \<and> nth_search 0 \<notin> set (insert_all (map nth_search [0..<51]) [])"
proof -
  let ?es = "map nth_search [0..<51]"
  have len: "length ?es = 51" by simp
  have inj: "inj_on nth_search (set [0..<51])"
    by (rule inj_onI) (simp add: nth_search_def history_entry_def)
  have dist: "distinct ?es" using inj by (simp add: distinct_map)
  have tl_es: "tl ?es = map nth_search [1..<51]"
    by (simp add: upt_conv_Cons del: upt_Suc)
  have hd_es: "hd ?es = nth_search 0"
    by (simp add: upt_conv_Cons del: upt_Suc)
  from history_capped_at_50 [of 0 0 "[]" dune "[]" ?es] len
  have c: "insert_all ?es [] = rev (tl ?es)" by blast
  from history_capped_at_50 [of 0 0 "[]" dune "[]" ?es] len dist
  have d: "hd ?es \<notin> set (insert_all ?es [])" by blast
  from len dist c [unfolded tl_es] d [unfolded hd_es] show ?thesis by blast
qed

section \<open>Properties of favorites and journals\<close>

lemma holders_assign:
  "holders t (map (\<lambda>j. let cleanBooks = filter (\<lambda>u. u \<noteq> t) (bookTitles j)
                        in if Some (journal_id j) = b
                           then j\<lparr>bookTitles := cleanBooks @ [t]\<rparr>
                           else j\<lparr>bookTitles := cleanBooks\<rparr>) js)
   = map (\<lambda>j. j\<lparr>bookTitles := filter (\<lambda>u. u \<noteq> t) (bookTitles j) @ [t]\<rparr>)
         (filter (\<lambda>j. Some (journal_id j) = b) js)"
  by (induction js) (simp_all add: holders_def Let_def)

lemma distinct_ids_at_most_one:
  "distinct (map journal_id js) \<Longrightarrow> length (filter (\<lambda>j. Some (journal_id j) = b) js) \<le> 1"
proof (induction js)
  case Nil
  show ?case by simp
next
  case (Cons j js)
  show ?case
  proof (cases "Some (journal_id j) = b")
    case True
    with Cons.prems have "filter (\<lambda>k. Some (journal_id k) = b) js = []"
      by (force simp: filter_empty_conv image_iff)
    with True show ?thesis by simp
  next
    case False
    with Cons show ?thesis by simp
  qed
qed

text \<open>
  C3, as amended. In every journal list, \<^verbatim>\<open>assignBookToJournal(t, b)\<close> takes the
  title \<open>t\<close> out of the titles of every journal and puts it, once, at the end of the
  titles of every journal whose id is \<open>b\<close>: a journal holds \<open>t\<close> exactly once if its
  id is \<open>b\<close> and not at all otherwise. The journals keep their ids, names, creation
  times and order, the other titles of each journal stay in their order, and the
  favorites are untouched. Where the ids of the journals are pairwise distinct, at most
  one journal holds \<open>t\<close> afterwards.
\<close>

theorem assign_single_holder:
  "map bookTitles (journals (assignBookToJournal t b s))
     = map (\<lambda>j. if Some (journal_id j) = b
                 then filter (\<lambda>u. u \<noteq> t) (bookTitles j) @ [t]
                 else filter (\<lambda>u. u \<noteq> t) (bookTitles j)) (journals s)
   \<and> list_all (\<lambda>j. count_list (bookTitles j) t = (if Some (journal_id j) = b then 1 else 0))
        (journals (assignBookToJournal t b s))
   \<and> map journal_id (journals (assignBookToJournal t b s)) = map journal_id (journals s)
   \<and> map journal_name (journals (assignBookToJournal t b s)) = map journal_name (journals s)
   \<and> map createdAt (journals (assignBookToJournal t b s)) = map createdAt (journals s)
   \<and> favorites (assignBookToJournal t b s) = favorites s
   \<and> (distinct (map journal_id (journals s))
        \<longrightarrow> length (holders t (journals (assignBookToJournal t b s))) \<le> 1)"
proof -
  have one: "length (holders t (journals (assignBookToJournal t b s))) \<le> 1"
    if "distinct (map journal_id (journals s))"
    using distinct_ids_at_most_one [OF that, of b]
    by (simp add: assignBookToJournal_def holders_assign)
  have cnt: "count_list (filter (\<lambda>u. u \<noteq> t) xs) t = 0" for xs :: "string list"
    by (induction xs) simp_all
  have cnt_end: "count_list (filter (\<lambda>u. u \<noteq> t) xs @ [t]) t = 1" for xs :: "string list"
    by (induction xs) simp_all
  have titles: "map bookTitles (journals (assignBookToJournal t b s))
     = map (\<lambda>j. if Some (journal_id j) = b
                 then filter (\<lambda>u. u \<noteq> t) (bookTitles j) @ [t]
                 else filter (\<lambda>u. u \<noteq> t) (bookTitles j)) (journals s)"
    by (simp add: assignBookToJournal_def Let_def)
  have once: "list_all (\<lambda>j. count_list (bookTitles j) t = (if Some (journal_id j) = b then 1 else 0))
         (journals (assignBookToJournal t b s))"
    by (auto simp: assignBookToJournal_def list_all_iff Let_def cnt cnt_end)
  have ids: "map journal_id (journals (assignBookToJournal t b s)) = map journal_id (journals s)"
    by (simp add: assignBookToJournal_def Let_def)
  have names: "map journal_name (journals (assignBookToJournal t b s)) = map journal_name (journals s)"
    by (simp add: assignBookToJournal_def Let_def)
  have times: "map createdAt (journals (assignBookToJournal t b s)) = map createdAt (journals s)"
    by (simp add: assignBookToJournal_def Let_def)
  have favs: "favorites (assignBookToJournal t b s) = favorites s"
    by (simp add: assignBookToJournal_def)
  from one titles once ids names times favs show ?thesis by blast
qed

theorem assign_single_holder_witness:
  "distinct (map journal_id (journals shelf))
   \<and> map bookTitles (journals shelf) = [[''Emma'', ''DUNE'', ''Dune''], [''Ulysses'']]
   \<and> map bookTitles (journals (assignBookToJournal ''Dune'' (Some ''2'') shelf))
       = [[''Emma'', ''DUNE''], [''Ulysses'', ''Dune'']]
   \<and> length (holders ''Dune'' (journals (assignBookToJournal ''Dune'' (Some ''2'') shelf))) \<le> 1"
proof -
  have d: "distinct (map journal_id (journals shelf))" by (simp add: shelf_def)
  have o: "map bookTitles (journals shelf) = [[''Emma'', ''DUNE'', ''Dune''], [''Ulysses'']]"
    by (simp add: shelf_def)
  have e: "map (\<lambda>j. if Some (journal_id j) = Some ''2''
                 then filter (\<lambda>u. u \<noteq> ''Dune'') (bookTitles j) @ [''Dune'']
                 else filter (\<lambda>u. u \<noteq> ''Dune'') (bookTitles j)) (journals shelf)
       = [[''Emma'', ''DUNE''], [''Ulysses'', ''Dune'']]"
    by (simp add: shelf_def)
  note th = assign_single_holder [of "''Dune''" "Some ''2''" shelf]
  from th have f: "map bookTitles (journals (assignBookToJournal ''Dune'' (Some ''2'') shelf))
       = [[''Emma'', ''DUNE''], [''Ulysses'', ''Dune'']]"
    unfolding e by (rule conjunct1)
  from th d have g: "length (holders ''Dune'' (journals (assignBookToJournal ''Dune'' (Some ''2'') shelf))) \<le> 1"
    by (elim conjE) (erule (1) mp)
  from d o f g show ?thesis by (intro conjI)
qed

text \<open>
  The claim C3 as it is written, for every journal list, fails where two journals carry
  the same id: both receive the title.
\<close>

theorem assign_twins_counterexample:
  "length (holders ''Dune'' (journals (assignBookToJournal ''Dune'' (Some ''1'') twins))) = 2"
  by (simp add: twins_def assignBookToJournal_def holders_def)

lemma find_favorite:
  "(find (\<lambda>f. toLowerCase (title f) = toLowerCase u) (favorites s) = None) = (\<not> isFavorited toLowerCase s u)"
  by (auto simp: isFavorited_def find_None_iff list_ex_iff)

text \<open>
  C4. \<^verbatim>\<open>toggleFavorite\<close> on a book whose title, compared without regard to case, is
  in the favorites removes every favourite of that title and, in the same step, every
  title of every journal that equals it without regard to case; no journal is deleted or
  renamed and the other titles stay. The cascade runs in this direction only: on a book
  that is not a favourite the journals are left alone and the book is put in front of
  the favorites.
\<close>

theorem remove_favorite_cascades:
  "(isFavorited toLowerCase s (title book) \<longrightarrow>
      \<not> isFavorited toLowerCase (toggleFavorite toLowerCase book s) (title book)
      \<and> favorites (toggleFavorite toLowerCase book s)
          = filter (\<lambda>f. toLowerCase (title f) \<noteq> toLowerCase (title book)) (favorites s)
      \<and> list_all (\<lambda>j. list_all (\<lambda>t. toLowerCase t \<noteq> toLowerCase (title book)) (bookTitles j))
           (journals (toggleFavorite toLowerCase book s))
      \<and> map bookTitles (journals (toggleFavorite toLowerCase book s))
          = map (\<lambda>j. filter (\<lambda>t. toLowerCase t \<noteq> toLowerCase (title book)) (bookTitles j))
                (journals s)
      \<and> map journal_id (journals (toggleFavorite toLowerCase book s)) = map journal_id (journals s)
      \<and> map journal_name (journals (toggleFavorite toLowerCase book s)) = map journal_name (journals s))
   \<and> (\<not> isFavorited toLowerCase s (title book) \<longrightarrow>
      journals (toggleFavorite toLowerCase book s) = journals s
      \<and> favorites (toggleFavorite toLowerCase book s) = book # favorites s)"
proof (cases "isFavorited toLowerCase s (title book)")
  case True
  then obtain x where x: "find (\<lambda>f. toLowerCase (title f) = toLowerCase (title book)) (favorites s) = Some x"
    using find_favorite [of toLowerCase "title book" s] by auto
  have fav: "favorites (toggleFavorite toLowerCase book s)
          = filter (\<lambda>f. toLowerCase (title f) \<noteq> toLowerCase (title book)) (favorites s)"
    by (simp add: toggleFavorite_def x)
  have js: "journals (toggleFavorite toLowerCase book s)
          = map (\<lambda>j. j\<lparr>bookTitles :=
                          filter (\<lambda>t. toLowerCase t \<noteq> toLowerCase (title book)) (bookTitles j)\<rparr>)
                (journals s)"
    by (simp add: toggleFavorite_def x)
  have gone: "\<not> isFavorited toLowerCase (toggleFavorite toLowerCase book s) (title book)"
    by (simp add: isFavorited_def fav list_ex_iff)
  have clean: "list_all (\<lambda>j. list_all (\<lambda>t. toLowerCase t \<noteq> toLowerCase (title book)) (bookTitles j))
           (journals (toggleFavorite toLowerCase book s))"
    by (simp add: js list_all_iff)
  have titles: "map bookTitles (journals (toggleFavorite toLowerCase book s))
          = map (\<lambda>j. filter (\<lambda>t. toLowerCase t \<noteq> toLowerCase (title book)) (bookTitles j))
                (journals s)"
    by (simp add: js)
  have ids: "map journal_id (journals (toggleFavorite toLowerCase book s)) = map journal_id (journals s)"
    by (simp add: js)
  have names: "map journal_name (journals (toggleFavorite toLowerCase book s)) = map journal_name (journals s)"
    by (simp add: js)
  from True gone fav clean titles ids names show ?thesis by blast
next
  case False
  then have "find (\<lambda>f. toLowerCase (title f) = toLowerCase (title book)) (favorites s) = None"
    using find_favorite [of toLowerCase "title book" s] by simp
  then have "journals (toggleFavorite toLowerCase book s) = journals s
      \<and> favorites (toggleFavorite toLowerCase book s) = book # favorites s"
    by (simp add: toggleFavorite_def)
  with False show ?thesis by blast
qed

theorem remove_favorite_cascades_witness:
  "isFavorited ascii_lower shelf (title dune)
   \<and> \<not> isFavorited ascii_lower (toggleFavorite ascii_lower dune shelf) (title dune)
   \<and> map bookTitles (journals shelf) = [[''Emma'', ''DUNE'', ''Dune''], [''Ulysses'']]
   \<and> map bookTitles (journals (toggleFavorite ascii_lower dune shelf)) = [[''Emma''], [''Ulysses'']]
   \<and> \<not> isFavorited ascii_lower (toggleFavorite ascii_lower dune shelf) ''Emma''
   \<and> journals (toggleFavorite ascii_lower (dune\<lparr>title := ''Emma''\<rparr>) shelf) = journals shelf"
proof -
  have a: "isFavorited ascii_lower shelf (title dune)"
    by code_simp
  have b: "map bookTitles (journals shelf) = [[''Emma'', ''DUNE'', ''Dune''], [''Ulysses'']]"
    by (simp add: shelf_def)
  have c: "map (\<lambda>j. filter (\<lambda>t. ascii_lower t \<noteq> ascii_lower (title dune)) (bookTitles j))
                (journals shelf) = [[''Emma''], [''Ulysses'']]"
    by code_simp
  have d: "\<not> isFavorited ascii_lower shelf (title (dune\<lparr>title := ''Emma''\<rparr>))"
    by code_simp
  have e: "\<not> isFavorited ascii_lower (toggleFavorite ascii_lower dune shelf) ''Emma''"
    by code_simp
  from remove_favorite_cascades [of ascii_lower shelf dune] a
  have f: "\<not> isFavorited ascii_lower (toggleFavorite ascii_lower dune shelf) (title dune)"
    and g: "map bookTitles (journals (toggleFavorite ascii_lower dune shelf))
          = map (\<lambda>j. filter (\<lambda>t. ascii_lower t \<noteq> ascii_lower (title dune)) (bookTitles j))
                (journals shelf)"
    by blast+
  from remove_favorite_cascades [of ascii_lower shelf "dune\<lparr>title := ''Emma''\<rparr>"] d
  have h: "journals (toggleFavorite ascii_lower (dune\<lparr>title := ''Emma''\<rparr>) shelf) = journals shelf"
    by blast
  from a b e f g [unfolded c] h show ?thesis by blast
qed

text \<open>
  C8. \<^verbatim>\<open>deleteJournal(id)\<close> leaves the favorites and the history as they were, and the
  journals whose id is not \<open>i\<close> stay, unchanged and in their order; once the user has
  confirmed, no journal of id \<open>i\<close> is left, and without the confirmation nothing changes.
\<close>

theorem deleteJournal_frame:
  "favorites (deleteJournal confirmed i s) = favorites s
   \<and> history (deleteJournal confirmed i s) = history s
   \<and> filter (\<lambda>j. journal_id j \<noteq> i) (journals (deleteJournal confirmed i s))
       = filter (\<lambda>j. journal_id j \<noteq> i) (journals s)
   \<and> journals (deleteJournal True i s) = filter (\<lambda>j. journal_id j \<noteq> i) (journals s)
   \<and> list_all (\<lambda>j. journal_id j \<noteq> i) (journals (deleteJournal True i s))
   \<and> deleteJournal False i s = s"
  by (simp add: deleteJournal_def list_all_iff)

section \<open>Properties of the playback controller\<close>

lemma toggle_locked_noop: "isAudioLocked s \<Longrightarrow> handleAudioToggle text s = s"
  by (simp add: handleAudioToggle_def)

lemma toggle_twice_one_request:
  assumes "\<not> isAudioLocked s" "\<not> isPlayingAudio s" "a \<noteq> []"
  shows "run s [Toggle (Some a), Toggle b] = run s [Toggle (Some a)]"
    and "requests (run s [Toggle (Some a), Toggle b]) = requests s @ [AwaitSpeak]"
  using assms by (simp_all add: run_def handleAudioToggle_def startAudioPlayback_def)

text \<open>
  A failure that arrives while nothing plays leaves the controller Idle, whatever
  happened between the start and the failure.
\<close>

lemma failure_while_silent:
  assumes "\<not> isPlayingAudio s" "\<not> isAudioPaused s" "activeAudioSource s = None"
  shows "waits s r AwaitSpeak \<Longrightarrow> \<not> truthy b \<Longrightarrow>
           Idle (step s (Speak r b)) \<and> effects (step s (Speak r b)) = effects s"
    and "waits s r AwaitDecode \<Longrightarrow>
           Idle (step s (Decode r False))
           \<and> effects (step s (Decode r False)) = effects s @ [ConsoleError]"
    and "waits s r AwaitSpeak \<Longrightarrow>
           Idle (step s (SpeakRejected r))
           \<and> effects (step s (SpeakRejected r)) = effects s @ [ConsoleError]"
  using assms
  by (simp_all add: Idle_def speak_resolved_def decode_resolved_def start_failed_def)

text \<open>
  C1. The run in which the user starts a narration, stops it while the audio is being
  fetched and starts it again, after which the two answers arrive one after the other:
  the first call finds the lock taken (by the second call) and starts its source, and so
  does the second. Two sources sound at once, and only the second is still held in
  \<^verbatim>\<open>activeAudioSourceRef\<close>.
\<close>

theorem stop_and_restart_two_sources:
  "sounding (run initial [Toggle (Some ''Dune''), Stop, Toggle (Some ''Dune''),
                          Speak 0 (Some ''UklG''), Decode 0 True,
                          Speak 1 (Some ''UklG''), Decode 1 True]) = [0, 1]
   \<and> activeAudioSource (run initial [Toggle (Some ''Dune''), Stop, Toggle (Some ''Dune''),
                          Speak 0 (Some ''UklG''), Decode 0 True,
                          Speak 1 (Some ''UklG''), Decode 1 True]) = Some 1"
  by code_simp

lemma filter_absent: "a \<notin> set xs \<Longrightarrow> filter (\<lambda>x. x \<noteq> a) xs = xs"
  by (induction xs) auto

lemma stopAudio_fields:
  "isPlayingAudio (stopAudio s) = False" "isAudioPaused (stopAudio s) = False"
  "isAudioLoading (stopAudio s) = False" "isAudioLocked (stopAudio s) = False"
  "activeAudioSource (stopAudio s) = None"
  "effects (stopAudio s) = effects s" "requests (stopAudio s) = requests s"
  "sounding (stopAudio s) = filter (\<lambda>x. Some x \<noteq> activeAudioSource s) (sounding s)"
  by (auto simp: stopAudio_def source_stop_def Let_def removeAll_filter_not_eq filter_absent
      split: option.splits sum.splits intro: filter_cong)

lemma stopAudio_part_001_fields:
  "isPlayingAudio (stopAudio_part_001 s) = False" "isAudioPaused (stopAudio_part_001 s) = False"
  "isAudioLoading (stopAudio_part_001 s) = False" "isAudioLocked (stopAudio_part_001 s) = False"
  "activeAudioSource (stopAudio_part_001 s) = None"
  "effects (stopAudio_part_001 s) = effects s" "requests (stopAudio_part_001 s) = requests s"
  "sounding (stopAudio_part_001 s) = filter (\<lambda>x. Some x \<noteq> activeAudioSource s) (sounding s)"
  by (auto simp: stopAudio_part_001_def source_stop_def Let_def removeAll_filter_not_eq filter_absent
      split: option.splits sum.splits intro: filter_cong)

text \<open>
  C5. \<^verbatim>\<open>stopAudio\<close>, in both revisions of the component, is a total function of the
  state (the error that \<^verbatim>\<open>stop()\<close> may raise is dropped): from every state it leads
  to Idle (the flags playing, paused and loading are false, the lock is free, no source
  is held), the source that was held no longer sounds while the others are left alone,
  nothing is shown or logged, and a second call changes nothing.
\<close>

theorem stopAudio_idempotent:
  "stopAudio (stopAudio s) = stopAudio s
   \<and> Idle (stopAudio s)
   \<and> sounding (stopAudio s) = filter (\<lambda>x. Some x \<noteq> activeAudioSource s) (sounding s)
   \<and> effects (stopAudio s) = effects s
   \<and> stopAudio_part_001 (stopAudio_part_001 s) = stopAudio_part_001 s
   \<and> Idle (stopAudio_part_001 s)
   \<and> sounding (stopAudio_part_001 s) = filter (\<lambda>x. Some x \<noteq> activeAudioSource s) (sounding s)
   \<and> effects (stopAudio_part_001 s) = effects s"
proof -
  have a: "stopAudio (stopAudio s) = stopAudio s"
    by (auto simp: stopAudio_def source_stop_def Let_def split: option.splits sum.splits)
  have b: "stopAudio_part_001 (stopAudio_part_001 s) = stopAudio_part_001 s"
    by (auto simp: stopAudio_part_001_def source_stop_def Let_def split: option.splits sum.splits)
  have c: "Idle (stopAudio s)" "Idle (stopAudio_part_001 s)"
    by (simp_all add: Idle_def stopAudio_fields stopAudio_part_001_fields)
  from a b c stopAudio_fields(6,8) [of s] stopAudio_part_001_fields(6,8) [of s]
  show ?thesis by blast
qed

text \<open>
  C7. A narration started from Idle whose request brings no audio (\<^verbatim>\<open>speakText\<close>
  resolves with \<^verbatim>\<open>undefined\<close> or with the empty string), or whose audio cannot be
  decoded, ends in Idle again. Nothing is shown to the user: with no audio nothing is
  logged either, and a failed decoding leaves one \<^verbatim>\<open>console.error\<close>. No source was
  created or started.
\<close>

theorem start_failure_returns_to_idle:
  assumes "Idle s" and "text \<noteq> []" and "audio \<noteq> []"
  shows "isAudioLocked (step s (Toggle (Some text)))
    \<and> isAudioLoading (step s (Toggle (Some text)))
    \<and> Idle (run s [Toggle (Some text), Speak (length (requests s)) None])
    \<and> effects (run s [Toggle (Some text), Speak (length (requests s)) None]) = effects s
    \<and> Idle (run s [Toggle (Some text), Speak (length (requests s)) (Some [])])
    \<and> effects (run s [Toggle (Some text), Speak (length (requests s)) (Some [])]) = effects s
    \<and> Idle (run s [Toggle (Some text), Speak (length (requests s)) (Some audio),
                    Decode (length (requests s)) False])
    \<and> effects (run s [Toggle (Some text), Speak (length (requests s)) (Some audio),
                       Decode (length (requests s)) False]) = effects s @ [ConsoleError]
    \<and> sounding (run s [Toggle (Some text), Speak (length (requests s)) (Some audio),
                        Decode (length (requests s)) False]) = sounding s
    \<and> sources (run s [Toggle (Some text), Speak (length (requests s)) (Some audio),
                       Decode (length (requests s)) False]) = sources s"
proof -
  let ?r = "length (requests s)"
  have s1: "handleAudioToggle (Some text) s
      = s\<lparr>isAudioLocked := True, isAudioLoading := True, requests := requests s @ [AwaitSpeak]\<rparr>"
    using assms(1,2) by (simp add: Idle_def handleAudioToggle_def startAudioPlayback_def)
  have a: "isAudioLocked (step s (Toggle (Some text))) \<and> isAudioLoading (step s (Toggle (Some text)))"
    by (simp add: s1)
  have quiet: "run s [Toggle (Some text), Speak ?r v]
      = s\<lparr>isAudioLocked := False, isAudioLoading := False, requests := requests s @ [Returned]\<rparr>"
    if "\<not> truthy v" for v
    using that by (simp add: run_def s1 waits_def speak_resolved_def)
  have b: "Idle (run s [Toggle (Some text), Speak ?r None])
      \<and> effects (run s [Toggle (Some text), Speak ?r None]) = effects s"
    using assms(1) by (simp add: quiet truthy_def Idle_def)
  have c: "Idle (run s [Toggle (Some text), Speak ?r (Some [])])
      \<and> effects (run s [Toggle (Some text), Speak ?r (Some [])]) = effects s"
    using assms(1) by (simp add: quiet truthy_def Idle_def)
  have d: "run s [Toggle (Some text), Speak ?r (Some audio), Decode ?r False]
      = s\<lparr>isAudioLocked := False, isAudioLoading := False, audioContext := Some running,
           requests := requests s @ [Returned], effects := effects s @ [ConsoleError]\<rparr>"
    using assms(3)
    by (simp add: run_def s1 waits_def speak_resolved_def truthy_def decode_resolved_def
        start_failed_def)
  have e: "Idle (run s [Toggle (Some text), Speak ?r (Some audio), Decode ?r False])
      \<and> effects (run s [Toggle (Some text), Speak ?r (Some audio), Decode ?r False])
          = effects s @ [ConsoleError]
      \<and> sounding (run s [Toggle (Some text), Speak ?r (Some audio), Decode ?r False]) = sounding s
      \<and> sources (run s [Toggle (Some text), Speak ?r (Some audio), Decode ?r False]) = sources s"
    using assms(1) by (simp add: d Idle_def)
  from a b c e show ?thesis by blast
qed

theorem start_failure_returns_to_idle_witness:
  "Idle initial
   \<and> Idle (run initial [Toggle (Some ''Dune''), Speak 0 None])
   \<and> effects (run initial [Toggle (Some ''Dune''), Speak 0 None]) = []
   \<and> Idle (run initial [Toggle (Some ''Dune''), Speak 0 (Some ''UklG''), Decode 0 False])
   \<and> effects (run initial [Toggle (Some ''Dune''), Speak 0 (Some ''UklG''), Decode 0 False])
       = [ConsoleError]"
proof -
  have i: "Idle initial" by (simp add: Idle_def initial_def)
  have n: "length (requests initial) = 0" "effects initial = []" by (simp_all add: initial_def)
  have t: "''Dune'' \<noteq> []" "''UklG'' \<noteq> []" by simp_all
  from start_failure_returns_to_idle [OF i t, unfolded n] i show ?thesis by simp
qed

section \<open>Properties of the hydration\<close>

lemma parse_or_empty_falsy: "\<not> truthy saved \<Longrightarrow> parse_or_empty p saved = Inr []"
  by (simp add: parse_or_empty_def truthy_def split: option.splits)

lemma parse_or_empty_text:
  "text \<noteq> [] \<Longrightarrow>
   parse_or_empty p (Some text) = (case p text of None \<Rightarrow> Inl SyntaxError | Some v \<Rightarrow> Inr v)"
  by (simp add: parse_or_empty_def)

text \<open>
  C6, as amended. A key that is missing, or that holds the empty text, loads as its
  default and nothing is raised: the empty list for favorites, journals and history,
  \<^verbatim>\<open>English\<close> for the language, the preference of the system for the theme. Any other
  text loads as itself for the language and as \<^verbatim>\<open>text === 'dark'\<close> for the theme, so
  these two never raise. For favorites, journals and history any other text is handed to
  \<^verbatim>\<open>JSON.parse\<close>, and the load is what \<^verbatim>\<open>JSON.parse\<close> does: its value, or its
  SyntaxError.
\<close>

theorem load_missing_is_default:
  "(\<not> truthy (localStorage ''lumina-favorites'') \<longrightarrow> favorites_initial pf localStorage = Inr [])
   \<and> (\<not> truthy (localStorage ''lumina-journals'') \<longrightarrow> journals_initial pj localStorage = Inr [])
   \<and> (\<not> truthy (localStorage ''lumina-history'') \<longrightarrow> history_initial ph localStorage = Inr [])
   \<and> (\<not> truthy (localStorage ''lumina-lang'') \<longrightarrow> language_initial localStorage = ''English'')
   \<and> (\<not> truthy (localStorage ''lumina-theme'') \<longrightarrow>
          isDarkMode_initial prefersDark localStorage = prefersDark)
   \<and> (truthy (localStorage ''lumina-lang'') \<longrightarrow>
          Some (language_initial localStorage) = localStorage ''lumina-lang'')
   \<and> (truthy (localStorage ''lumina-theme'') \<longrightarrow>
          isDarkMode_initial prefersDark localStorage = (localStorage ''lumina-theme'' = Some ''dark''))
   \<and> (localStorage ''lumina-favorites'' = Some text \<and> text \<noteq> [] \<longrightarrow>
          favorites_initial pf localStorage
            = (case pf text of None \<Rightarrow> Inl SyntaxError | Some v \<Rightarrow> Inr v))
   \<and> (localStorage ''lumina-journals'' = Some text \<and> text \<noteq> [] \<longrightarrow>
          journals_initial pj localStorage
            = (case pj text of None \<Rightarrow> Inl SyntaxError | Some v \<Rightarrow> Inr v))
   \<and> (localStorage ''lumina-history'' = Some text \<and> text \<noteq> [] \<longrightarrow>
          history_initial ph localStorage
            = (case ph text of None \<Rightarrow> Inl SyntaxError | Some v \<Rightarrow> Inr v))"
proof -
  have lang: "\<not> truthy v \<Longrightarrow> or_else v d = d" "truthy v \<Longrightarrow> Some (or_else v d) = v" for v d
    by (auto simp: truthy_def or_else_def split: option.splits)
  show ?thesis
    by (simp add: favorites_initial_def journals_initial_def history_initial_def
        language_initial_def isDarkMode_initial_def Let_def
        parse_or_empty_falsy parse_or_empty_text lang)
qed

theorem load_missing_is_default_witness:
  "\<not> truthy (no_storage ''lumina-favorites'')
   \<and> favorites_initial parse_table no_storage = Inr []
   \<and> journals_initial Map.empty no_storage = Inr []
   \<and> history_initial Map.empty no_storage = Inr []
   \<and> language_initial no_storage = ''English''
   \<and> isDarkMode_initial True no_storage = True
   \<and> isDarkMode_initial False no_storage = False"
proof -
  have f: "\<not> truthy (no_storage k)" for k by (simp add: no_storage_def truthy_def)
  note t = load_missing_is_default [of no_storage parse_table Map.empty Map.empty True]
  note u = load_missing_is_default [of no_storage parse_table Map.empty Map.empty False]
  from t f have a: "favorites_initial parse_table no_storage = Inr []" by simp
  from t f have b: "journals_initial Map.empty no_storage = Inr []" by simp
  from t f have c: "history_initial Map.empty no_storage = Inr []" by simp
  from t f have d: "language_initial no_storage = ''English''" by simp
  from t f have e: "isDarkMode_initial True no_storage = True" by simp
  from u f have g: "isDarkMode_initial False no_storage = False" by simp
  from f a b c d e g show ?thesis by simp
qed

text \<open>
  The claim C6 as it is written fails on a favorites text that \<^verbatim>\<open>JSON.parse\<close> rejects:
  the initializer raises the SyntaxError instead of returning the empty list.
\<close>

theorem load_cut_off_counterexample:
  "cut_off_storage ''lumina-favorites'' = Some (''[{'' @ quoted ''title'' @ '':'')
   \<and> parse_table (''[{'' @ quoted ''title'' @ '':'') = None
   \<and> favorites_initial parse_table cut_off_storage = Inl SyntaxError"
  by code_simp

section \<open>Properties of the capture controller\<close>

lemma recorded_nothing: "recorded_base64 [] = Some []"
  by (simp add: recorded_base64_def new_Blob_def readAsDataURL_def at_index_def)

lemma transcribe_blank:
  assumes "g (transcribe_request b m) = Inr response"
    and "response_text response = None \<or> (\<exists>t. response_text response = Some t \<and> trim t = [])"
  shows "transcribeAudio trim g b m = Inr []"
  using assms by (auto simp: transcribeAudio_def or_else_def)

lemma onstop_search:
  "snd (onstop trim g s) = Some q \<Longrightarrow>
   q \<noteq> [] \<and> transcribeAudio trim g (recorded_base64 (audioChunks s)) ''audio/webm'' = Inr q"
  by (auto simp: onstop_def handleSearch_query_def or_else_def Let_def
      split: sum.splits if_splits)

text \<open>
  C9, as amended. A recording stopped with no chunk captured sends the transcription
  request with the empty text as its audio, of type \<^verbatim>\<open>audio/webm\<close>. If the service
  answers it with no text or with white space only, \<^verbatim>\<open>transcribeAudio\<close> returns the
  empty string and no search is started; if the service rejects the request, no search
  is started either. For every recording, an empty transcription starts no search, and
  a search that is started has the transcription, which is not empty, as its query.
\<close>

theorem empty_transcription_no_search:
  assumes "audioChunks s = []"
  shows "recorded_base64 (audioChunks s) = Some []
    \<and> inlineData (transcribe_request (recorded_base64 (audioChunks s)) ''audio/webm'' :: 'loc Request)
        = Some (Some [], ''audio/webm'')
    \<and> ((g :: 'loc service) (transcribe_request (Some []) ''audio/webm'') = Inr response
         \<and> (response_text response = None \<or> (\<exists>t. response_text response = Some t \<and> trim t = []))
        \<longrightarrow> transcribeAudio trim g (Some []) ''audio/webm'' = Inr [] \<and> snd (onstop trim g s) = None)
    \<and> (g (transcribe_request (Some []) ''audio/webm'') = Inl e \<longrightarrow> snd (onstop trim g s) = None)
    \<and> (transcribeAudio trim g (recorded_base64 (audioChunks s')) ''audio/webm'' = Inr []
        \<longrightarrow> snd (onstop trim g s') = None)
    \<and> (snd (onstop trim g s') = Some q
        \<longrightarrow> q \<noteq> [] \<and> transcribeAudio trim g (recorded_base64 (audioChunks s')) ''audio/webm'' = Inr q)"
proof -
  have a: "recorded_base64 (audioChunks s) = Some []"
    by (simp add: assms recorded_nothing)
  have b: "inlineData (transcribe_request (recorded_base64 (audioChunks s)) ''audio/webm'' :: 'loc Request)
        = Some (Some [], ''audio/webm'')"
    by (simp add: a transcribe_request_def)
  have c: "transcribeAudio trim g (Some []) ''audio/webm'' = Inr [] \<and> snd (onstop trim g s) = None"
    if "g (transcribe_request (Some []) ''audio/webm'') = Inr response"
      and "response_text response = None \<or> (\<exists>t. response_text response = Some t \<and> trim t = [])"
  proof -
    from transcribe_blank [of g "Some []" "''audio/webm''" response trim] that
    have "transcribeAudio trim g (Some []) ''audio/webm'' = Inr []" by simp
    then show ?thesis by (simp add: onstop_def a)
  qed
  have d: "snd (onstop trim g s) = None" if "g (transcribe_request (Some []) ''audio/webm'') = Inl e"
    using that by (simp add: onstop_def a transcribeAudio_def)
  have e: "snd (onstop trim g s') = None"
    if "transcribeAudio trim g (recorded_base64 (audioChunks s')) ''audio/webm'' = Inr []"
    using that by (simp add: onstop_def)
  from a b c d e onstop_search [of trim g s' q] show ?thesis by blast
qed

theorem empty_transcription_no_search_witness:
  "audioChunks (startRecording True recorder) = []
   \<and> recorded_base64 (audioChunks (startRecording True recorder)) = Some []
   \<and> transcribeAudio ascii_trim hears_nothing (Some []) ''audio/webm'' = Inr []
   \<and> snd (onstop ascii_trim hears_nothing (startRecording True recorder)) = None"
proof -
  have a: "audioChunks (startRecording True recorder) = []"
    by (simp add: startRecording_def)
  have b: "hears_nothing (transcribe_request (Some []) ''audio/webm'')
      = Inr \<lparr>groundingChunks = None, response_text = None\<rparr>"
    by (simp add: hears_nothing_def)
  have c: "response_text \<lparr>groundingChunks = None, response_text = None\<rparr> = None
      \<or> (\<exists>t. response_text \<lparr>groundingChunks = None, response_text = None\<rparr> = Some t
              \<and> ascii_trim t = [])"
    by simp
  from empty_transcription_no_search [OF a, where g = hears_nothing and trim = ascii_trim
      and response = "\<lparr>groundingChunks = None, response_text = None\<rparr>"] a b c
  show ?thesis by blast
qed

text \<open>
  The claim C9 as it is written fails where the service answers the empty clip with a
  text: the recording has no chunk, the request carries the empty audio, and the search
  is started with the text that came back.
\<close>

theorem empty_clip_search_counterexample:
  "audioChunks (startRecording True recorder) = []
   \<and> recorded_base64 (audioChunks (startRecording True recorder)) = Some []
   \<and> transcribeAudio ascii_trim hears_dune (Some []) ''audio/webm'' = Inr ''Dune''
   \<and> snd (onstop ascii_trim hears_dune (startRecording True recorder)) = Some ''Dune''"
  by code_simp

section \<open>Properties of the search\<close>


end
